theory Spec2Isabelle
  imports Complex_Main "HOL-Library.Sublist"
begin

section \<open>The FLOPS benchmark runner (\<open>benchmark_runner.py\<close>)\<close>

text \<open>
  A shallow embedding of the class \<open>BenchmarkRunner\<close>: benchmark detection, the timed
  run of one executable with the parse of its standard output, the aggregation of the
  successful runs into the results table, and the verbose detail view.

  Conventions of the model.
  \<^item> Python numbers (the floats read from the output, the durations, the int \<open>0\<close> of an
    empty sample list) are exact rationals. The arithmetic the program does on them is
    \<open>max\<close>, \<open>min\<close>, comparison and division, and a decimal token denotes its exact
    decimal value; the rounding of a token to the nearest double and the overflow of a
    very long token to \<open>inf\<close> are not modelled.
  \<^item> A character is a code point below 256.
  \<^item> An exception is a value of \<open>error\<close>, and a function that can raise returns
    \<open>error + 'a\<close>.
  \<^item> What the operating system answers (the files, the outcome of a child process) is
    an argument of the model.
\<close>

subsection \<open>Exceptions\<close>

datatype error =
    ValueError string
  | ZeroDivisionError
  | TypeError

subsection \<open>Character classes of the two patterns\<close>

text \<open>\<open>\d\<close> on code points below 256: the ASCII digits.\<close>

definition isdigit :: "char \<Rightarrow> bool" where
  "isdigit c = (c \<in> set ''0123456789'')"

text \<open>The class \<open>[\d.]\<close>.\<close>

definition isnumch :: "char \<Rightarrow> bool" where
  "isnumch c = (isdigit c \<or> c = CHR ''.'')"

text \<open>
  \<open>\s\<close> of a \<open>str\<close> pattern on code points below 256: tab, line feed, vertical tab, form
  feed, carriage return, the separators 28 to 31, space, next line (133) and no-break
  space (160).
\<close>

definition isspace :: "char \<Rightarrow> bool" where
  "isspace c = ((of_char c :: nat) \<in> set [9, 10, 11, 12, 13, 28, 29, 30, 31, 32, 133, 160])"

subsection \<open>\<open>float(token)\<close>\<close>

definition digit_val :: "char \<Rightarrow> nat" where
  "digit_val c = of_char c - 48"

definition digits_val :: "string \<Rightarrow> nat" where
  "digits_val s = foldl (\<lambda>a c. 10 * a + digit_val c) 0 s"

text \<open>The text of the exception: \<open>could not convert string to float: '1.2.3'\<close>.\<close>

definition float_error :: "string \<Rightarrow> error" where
  "float_error s =
     ValueError (''could not convert string to float: '' @ [CHR 0x27] @ s @ [CHR 0x27])"

text \<open>
  \<open>float\<close> on a token captured by \<open>[\d.]+\<close>. Such a token has no sign, exponent,
  underscore or blank, so it is a float literal exactly when it is digits, at most one
  point, and at least one digit (\<open>12\<close>, \<open>12.\<close>, \<open>.5\<close>, \<open>1.5\<close>); anything else
  (\<open>.\<close>, \<open>1.2.3\<close>, \<open>..\<close>) raises \<open>ValueError\<close>.
\<close>

definition py_float :: "string \<Rightarrow> error + rat" where
  "py_float s =
     (let ip = takeWhile isdigit s
      in case dropWhile isdigit s of
           [] \<Rightarrow> (if ip = [] then Inl (float_error s) else Inr (of_nat (digits_val ip)))
         | c # fp \<Rightarrow>
             if c = CHR ''.'' \<and> list_all isdigit fp \<and> (ip \<noteq> [] \<or> fp \<noteq> []) then
               Inr (of_nat (digits_val ip) + of_nat (digits_val fp) / 10 ^ length fp)
             else Inl (float_error s))"

subsection \<open>The two searches\<close>

text \<open>
  \<open>re.search(r'MFLOPS:\s*([\d.]+)', line)\<close> tried at the head of \<open>s\<close>: the literal, then
  the longest run of blanks, then the longest nonempty run of \<open>[\d.]\<close>, which is the
  group. The two greedy runs never give a character back with success: a blank is not
  in \<open>[\d.]\<close>, so a shorter run of blanks leaves a blank where the group must start.
\<close>

definition match_mflops_at :: "string \<Rightarrow> string option" where
  "match_mflops_at s =
     (if take 7 s = ''MFLOPS:'' then
        (let g = takeWhile isnumch (dropWhile isspace (drop 7 s))
         in if g = [] then None else Some g)
      else None)"

text \<open>\<open>re.search\<close> scans the start positions from the left and returns the first match.\<close>

fun search_mflops :: "string \<Rightarrow> string option" where
  "search_mflops [] = match_mflops_at []"
| "search_mflops (c # cs) =
     (case match_mflops_at (c # cs) of
        Some g \<Rightarrow> Some g
      | None \<Rightarrow> search_mflops cs)"

text \<open>
  \<open>re.search(r'([\d.]+)\s*GFLOPS', line)\<close> tried at the head of \<open>s\<close>: the longest
  nonempty run of \<open>[\d.]\<close>, the longest run of blanks, the literal. A shorter group or a
  shorter run of blanks leaves a digit, a point or a blank where the \<open>G\<close> must be, so
  backtracking finds nothing more.
\<close>

definition match_gflops_at :: "string \<Rightarrow> string option" where
  "match_gflops_at s =
     (let g = takeWhile isnumch s
      in if g \<noteq> [] \<and> take 6 (dropWhile isspace (dropWhile isnumch s)) = ''GFLOPS''
         then Some g else None)"

fun search_gflops :: "string \<Rightarrow> string option" where
  "search_gflops [] = match_gflops_at []"
| "search_gflops (c # cs) =
     (case match_gflops_at (c # cs) of
        Some g \<Rightarrow> Some g
      | None \<Rightarrow> search_gflops cs)"

subsection \<open>The parse loop of \<open>_run_benchmark\<close>\<close>

text \<open>\<open>result.stdout.split('\n')\<close>: the pieces between line feeds, always at least one.\<close>

fun split_nl :: "string \<Rightarrow> string list" where
  "split_nl [] = [[]]"
| "split_nl (c # cs) =
     (if c = CHR 0x0A then [] # split_nl cs
      else (case split_nl cs of
              [] \<Rightarrow> [[c]]
            | l # ls \<Rightarrow> (c # l) # ls))"

text \<open>\<open>if m: values.append(float(m.group(1)))\<close>.\<close>

definition append_match :: "string option \<Rightarrow> rat list \<Rightarrow> error + rat list" where
  "append_match m values =
     (case m of
        None \<Rightarrow> Inr values
      | Some g \<Rightarrow> (case py_float g of Inl e \<Rightarrow> Inl e | Inr v \<Rightarrow> Inr (values @ [v])))"

text \<open>
  The loop over the lines, with the two lists it appends to. A \<open>ValueError\<close> of \<open>float\<close>
  leaves the loop at once.
\<close>

fun parse_lines :: "string list \<Rightarrow> rat list \<Rightarrow> rat list \<Rightarrow> error + (rat list \<times> rat list)" where
  "parse_lines [] mflops_values gflops_values = Inr (mflops_values, gflops_values)"
| "parse_lines (line # rest) mflops_values gflops_values =
     (case append_match (search_mflops line) mflops_values of
        Inl e \<Rightarrow> Inl e
      | Inr ms \<Rightarrow>
          (case append_match (search_gflops line) gflops_values of
             Inl e \<Rightarrow> Inl e
           | Inr gs \<Rightarrow> parse_lines rest ms gs))"

definition parse_output :: "string \<Rightarrow> error + (rat list \<times> rat list)" where
  "parse_output stdout = parse_lines (split_nl stdout) [] []"

subsection \<open>\<open>_run_benchmark\<close>\<close>

text \<open>
  What \<open>subprocess.run([path], capture_output=True, text=True, timeout=120)\<close> can do:
  return (exit code, stdout, stderr, and the seconds between the two clock readings),
  raise \<open>TimeoutExpired\<close> (with whatever was written before the child was killed), or
  raise another exception, of which \<open>str(e)\<close> is kept.
\<close>

datatype proc_outcome =
    Completed (returncode: int) (stdout: string) (stderr: string) (elapsed: rat)
  | TimeoutExpired string string
  | OtherException string

text \<open>The dictionary \<open>_run_benchmark\<close> returns, by the value of its key \<open>success\<close>.\<close>

datatype run_result =
    Success (run_output: string) (mflops_values: "rat list") (gflops_values: "rat list")
            (max_mflops: rat) (max_gflops: rat) (run_duration: rat)
  | Failure (error_text: string) (fail_duration: rat)

fun success :: "run_result \<Rightarrow> bool" where
  "success (Success _ _ _ _ _ _) = True"
| "success (Failure _ _) = False"

text \<open>
  \<open>max\<close> of a nonempty list, given as its head and tail: the first of the largest
  elements. Every call of \<open>max\<close> and \<open>min\<close> in the program is behind a test that the
  sequence is not empty, which the models write as a case on the list.
\<close>

fun max_from :: "rat \<Rightarrow> rat list \<Rightarrow> rat" where
  "max_from m [] = m"
| "max_from m (x # xs) = max_from (if x > m then x else m) xs"

text \<open>\<open>str(e)\<close> of an exception of the model.\<close>

fun str_error :: "error \<Rightarrow> string" where
  "str_error (ValueError msg) = msg"
| "str_error ZeroDivisionError = ''division by zero''"
| "str_error TypeError = ''unsupported operand type(s)''"

definition run_benchmark :: "proc_outcome \<Rightarrow> run_result" where
  "run_benchmark oc =
     (case oc of
        Completed rc out err t \<Rightarrow>
          if rc \<noteq> 0 then Failure err t
          else (case parse_output out of
                  Inl e \<Rightarrow> Failure (str_error e) 0
                | Inr (ms, gs) \<Rightarrow>
                    Success out ms gs
                      (case ms of [] \<Rightarrow> 0 | m # ms' \<Rightarrow> max_from m ms')
                      (case gs of
                         g # gs' \<Rightarrow> max_from g gs'
                       | [] \<Rightarrow> (case ms of [] \<Rightarrow> 0 | m # ms' \<Rightarrow> max_from m ms' / 1000))
                      t)
      | TimeoutExpired _ _ \<Rightarrow> Failure ''Benchmark timed out after 120 seconds'' 120
      | OtherException msg \<Rightarrow> Failure msg 0)"

subsection \<open>\<open>_detect_benchmarks\<close>\<close>

text \<open>
  The file system as the three tests read it: a path is absent (\<open>None\<close>) or names an
  entry that is a regular file or not, and that \<open>os.access(path, os.X_OK)\<close> accepts or
  not. \<open>Path.exists\<close> is true of every entry, \<open>Path.is_file\<close> of the regular files.
\<close>

record fs_entry =
  is_file :: bool
  x_ok :: bool

type_synonym filesystem = "string \<Rightarrow> fs_entry option"

definition path_exists :: "filesystem \<Rightarrow> string \<Rightarrow> bool" where
  "path_exists fs p = (fs p \<noteq> None)"

definition path_is_file :: "filesystem \<Rightarrow> string \<Rightarrow> bool" where
  "path_is_file fs p = (case fs p of None \<Rightarrow> False | Some e \<Rightarrow> is_file e)"

definition os_access_x :: "filesystem \<Rightarrow> string \<Rightarrow> bool" where
  "os_access_x fs p = (case fs p of None \<Rightarrow> False | Some e \<Rightarrow> x_ok e)"

text \<open>One value of the dictionary \<open>benchmarks\<close>.\<close>

record benchmark_info =
  available :: bool
  path :: string
  executable :: bool

definition benchmark_files :: "(string \<times> string) list" where
  "benchmark_files =
     [(''basic'', ''basic_benchmark''),
      (''vectorized'', ''vectorized_benchmark''),
      (''gpu'', ''gpu_benchmark'')]"

text \<open>
  The dictionary is an association list in insertion order, which is the order its
  \<open>items()\<close> are read in. \<open>resolve\<close> is \<open>Path(filename).resolve()\<close>.
\<close>

definition detect_benchmarks :: "(string \<Rightarrow> string) \<Rightarrow> filesystem \<Rightarrow> (string \<times> benchmark_info) list" where
  "detect_benchmarks resolve fs =
     map (\<lambda>(name, filename).
            let p = resolve filename
            in (name,
                \<lparr>available = (path_exists fs p \<and> path_is_file fs p),
                 path = p,
                 executable = (if path_exists fs p then os_access_x fs p else False)\<rparr>))
         benchmark_files"

subsection \<open>Formatting\<close>

definition digit_char :: "nat \<Rightarrow> char" where
  "digit_char d = ''0123456789'' ! d"

fun show_nat :: "nat \<Rightarrow> string" where
  "show_nat n =
     (if n < 10 then [digit_char n]
      else show_nat (n div 10) @ [digit_char (n mod 10)])"

declare show_nat.simps [simp del]

text \<open>Rounding to the nearest integer, a tie to the even one.\<close>

definition round_half_even :: "rat \<Rightarrow> int" where
  "round_half_even x =
     (let (a, b) = quotient_of x; q = a div b; r = a mod b
      in if 2 * r < b then q
         else if 2 * r > b then q + 1
         else if even q then q else q + 1)"

text \<open>
  \<open>f"{x:.pf}"\<close>: the sign, the integer part, and \<open>p\<close> decimals after a point when
  \<open>p > 0\<close>, of \<open>x\<close> rounded at the \<open>p\<close>-th decimal.
\<close>

definition fmt_fixed :: "nat \<Rightarrow> rat \<Rightarrow> string" where
  "fmt_fixed p x =
     (let n = nat (round_half_even (\<bar>x\<bar> * 10 ^ p));
          ip = show_nat (n div 10 ^ p);
          fp = show_nat (n mod 10 ^ p)
      in (if x < 0 then ''-'' else []) @ ip @
         (if p = 0 then [] else ''.'' @ replicate (p - length fp) (CHR ''0'') @ fp))"

text \<open>\<open>str.title\<close> on ASCII letters: a letter after a letter is lowered, another one raised.\<close>

definition ascii_lowercase :: string where
  "ascii_lowercase = ''abcdefghijklmnopqrstuvwxyz''"

definition ascii_uppercase :: string where
  "ascii_uppercase = ''ABCDEFGHIJKLMNOPQRSTUVWXYZ''"

definition islower :: "char \<Rightarrow> bool" where
  "islower c = (c \<in> set ascii_lowercase)"

definition isupper :: "char \<Rightarrow> bool" where
  "isupper c = (c \<in> set ascii_uppercase)"

definition upper :: "char \<Rightarrow> char" where
  "upper c = (case map_of (zip ascii_lowercase ascii_uppercase) c of Some u \<Rightarrow> u | None \<Rightarrow> c)"

definition lower :: "char \<Rightarrow> char" where
  "lower c = (case map_of (zip ascii_uppercase ascii_lowercase) c of Some l \<Rightarrow> l | None \<Rightarrow> c)"

definition title_char :: "bool \<Rightarrow> char \<Rightarrow> char" where
  "title_char prev c =
     (if islower c then (if prev then c else upper c)
      else if isupper c then (if prev then lower c else c)
      else c)"

fun title_from :: "bool \<Rightarrow> string \<Rightarrow> string" where
  "title_from prev [] = []"
| "title_from prev (c # cs) = title_char prev c # title_from (islower c \<or> isupper c) cs"

definition title :: "string \<Rightarrow> string" where
  "title s = title_from False s"

subsection \<open>\<open>_display_results\<close>\<close>

text \<open>One entry of \<open>results_data\<close>.\<close>

record bench_result =
  name :: string
  mflops :: rat
  gflops :: rat
  duration :: rat
  details :: "rat list"

text \<open>
  What the program writes, in order. A table is kept as its rows and a summary as its
  fields; the layout of the rich and of the plain rendering is not modelled.
\<close>

record table_row =
  row_name :: string
  perf :: string
  perf_style :: "string option"
  relative :: string
  row_duration :: string

record summary =
  peak_performance :: string
  best_configuration :: string
  speed_improvement :: "string option"

datatype console_item =
    NoBenchmarks
  | Running nat
  | RunningOne string
  | CompletedLine string string
  | FailedLine string string
  | ResultsTable "table_row list"
  | SummaryPanel summary
  | DetailHeader
  | DetailPanel string string
  | Building
  | BuildFailed string
  | BuildSuccessful

text \<open>
  The search for the baseline: \<open>None\<close>, or the \<open>mflops\<close> of the first entry named
  \<open>basic\<close>, where the loop breaks.
\<close>

fun find_basic :: "bench_result list \<Rightarrow> rat option" where
  "find_basic [] = None"
| "find_basic (r # rs) = (if name r = ''basic'' then Some (mflops r) else find_basic rs)"

text \<open>The truth value of \<open>baseline_mflops\<close>: \<open>None\<close> and zero are false.\<close>

fun truthy :: "rat option \<Rightarrow> bool" where
  "truthy None = False"
| "truthy (Some x) = (x \<noteq> 0)"

text \<open>\<open>min\<close> of a nonempty sequence: the first of the smallest elements.\<close>

fun min_from :: "rat \<Rightarrow> rat list \<Rightarrow> rat" where
  "min_from m [] = m"
| "min_from m (x # xs) = min_from (if x < m then x else m) xs"

text \<open>
  The value of \<open>baseline_mflops\<close> after
  \<open>if not baseline_mflops and results_data: baseline_mflops = min(...)\<close>.
\<close>

definition baseline_mflops :: "bench_result list \<Rightarrow> rat option" where
  "baseline_mflops results_data =
     (let b = find_basic results_data
      in if \<not> truthy b then
           (case map mflops results_data of
              [] \<Rightarrow> b
            | x # xs \<Rightarrow> Some (min_from x xs))
         else b)"

text \<open>
  \<open>max(results_data, key=lambda x: x["mflops"])\<close>: the first entry of the largest key,
  and \<open>ValueError\<close> on an empty list.
\<close>

fun max_by_mflops :: "bench_result \<Rightarrow> bench_result list \<Rightarrow> bench_result" where
  "max_by_mflops m [] = m"
| "max_by_mflops m (r # rs) = max_by_mflops (if mflops r > mflops m then r else m) rs"

fun max_result :: "bench_result list \<Rightarrow> error + bench_result" where
  "max_result [] = Inl (ValueError ''max() arg is an empty sequence'')"
| "max_result (r # rs) = Inr (max_by_mflops r rs)"

text \<open>\<open>x / baseline_mflops\<close>: no division by \<open>None\<close> or by zero.\<close>

fun py_div :: "rat \<Rightarrow> rat option \<Rightarrow> error + rat" where
  "py_div x None = Inl TypeError"
| "py_div x (Some y) = (if y = 0 then Inl ZeroDivisionError else Inr (x / y))"

text \<open>The column \<open>Relative\<close>: the division is done only under a true baseline.\<close>

definition relative_of :: "rat option \<Rightarrow> bench_result \<Rightarrow> string" where
  "relative_of b r =
     (case b of
        None \<Rightarrow> ''N/A''
      | Some y \<Rightarrow> if y = 0 then ''N/A'' else fmt_fixed 1 (mflops r / y) @ ''x'')"

definition make_row :: "bool \<Rightarrow> rat option \<Rightarrow> bench_result \<Rightarrow> table_row" where
  "make_row rich b r =
     \<lparr>row_name = title (name r),
      perf = (if gflops r \<ge> 1 then fmt_fixed 2 (gflops r) @ '' GFLOPS''
              else fmt_fixed 0 (mflops r) @ '' MFLOPS''),
      perf_style = (if \<not> rich then None
                    else if gflops r \<ge> 1 then Some ''bold green''
                    else if mflops r > 1000 then Some ''green'' else Some ''yellow''),
      relative = relative_of b r,
      row_duration = fmt_fixed 1 (duration r) @ ''s''\<rparr>"

text \<open>
  The function returns what it wrote and the exception it raised, if any. With the rich
  rendering the summary panel divides by the baseline with no test before it, after the
  table is written; the plain rendering has no such line.
\<close>

definition display_results :: "bool \<Rightarrow> bench_result list \<Rightarrow> console_item list \<times> error option" where
  "display_results rich results_data =
     (if results_data = [] then ([], None)
      else
        let b = baseline_mflops results_data;
            tbl = ResultsTable (map (make_row rich b) results_data)
        in case max_result results_data of
             Inl err \<Rightarrow> ([tbl], Some err)
           | Inr best \<Rightarrow>
               if rich then
                 (case py_div (mflops best) b of
                    Inl err \<Rightarrow> ([tbl], Some err)
                  | Inr q \<Rightarrow>
                      ([tbl,
                        SummaryPanel
                          \<lparr>peak_performance = fmt_fixed 2 (gflops best) @ '' GFLOPS'',
                           best_configuration = title (name best),
                           speed_improvement = Some (fmt_fixed 1 q @ ''x over baseline'')\<rparr>],
                       None))
               else
                 ([tbl,
                   SummaryPanel
                     \<lparr>peak_performance = fmt_fixed 2 (gflops best) @ '' GFLOPS'',
                      best_configuration = title (name best),
                      speed_improvement = None\<rparr>],
                  None))"

subsection \<open>\<open>run_benchmarks\<close> and \<open>_display_detailed_output\<close>\<close>

text \<open>
  The object: its dictionary \<open>results\<close> and the entry \<open>benchmarks\<close> of its capabilities
  (the processor, memory and compiler probes are read by the banner only).
\<close>

record runner =
  results :: "(string \<times> run_result) list"
  benchmarks :: "(string \<times> benchmark_info) list"

text \<open>What the program is run in.\<close>

record env =
  resolve :: "string \<Rightarrow> string"
  files :: filesystem
  exec :: "string \<Rightarrow> proc_outcome"
  rich_available :: bool
  make_all :: "int \<times> string"

text \<open>\<open>__init__\<close>: \<open>self.results = {}\<close> and the detection.\<close>

definition init :: "env \<Rightarrow> runner" where
  "init e = \<lparr>results = [], benchmarks = detect_benchmarks (resolve e) (files e)\<rparr>"

definition available_benchmarks :: "runner \<Rightarrow> (string \<times> benchmark_info) list" where
  "available_benchmarks self =
     filter (\<lambda>(n, info). available info \<and> executable info) (benchmarks self)"

text \<open>
  The loop over the runnable benchmarks: the lines written and \<open>results_data\<close>. Nothing
  is assigned to \<open>self.results\<close> here or anywhere else after \<open>__init__\<close>.
\<close>

fun run_loop :: "env \<Rightarrow> bool \<Rightarrow> (string \<times> benchmark_info) list \<Rightarrow> bench_result list
                   \<Rightarrow> console_item list \<times> bench_result list" where
  "run_loop e verbose [] results_data = ([], results_data)"
| "run_loop e verbose ((benchmark_name, info) # rest) results_data =
     (let pre = (if rich_available e then [] else [RunningOne benchmark_name]);
          result = run_benchmark (exec e (path info))
      in case result of
           Success out ms gs mm mg d \<Rightarrow>
             (let (log, rd) =
                    run_loop e verbose rest
                      (results_data @
                         [\<lparr>name = benchmark_name, mflops = mm, gflops = mg,
                           duration = d, details = ms\<rparr>])
              in (pre @ (if verbose then [CompletedLine benchmark_name (fmt_fixed 2 d)] else [])
                  @ log, rd))
         | Failure err d \<Rightarrow>
             (let (log, rd) = run_loop e verbose rest results_data
              in (pre @ [FailedLine benchmark_name err] @ log, rd)))"

definition display_detailed_output :: "runner \<Rightarrow> console_item list" where
  "display_detailed_output self =
     DetailHeader #
     concat (map (\<lambda>(n, result).
                    case result of
                      Success out ms gs mm mg d \<Rightarrow> [DetailPanel (title n @ '' Benchmark'') out]
                    | Failure err d \<Rightarrow> [])
                 (results self))"

text \<open>
  \<open>run_benchmarks\<close> after the three banner printers (header, system information,
  benchmark status), which write text that depends on no run.
\<close>

definition run_benchmarks :: "env \<Rightarrow> runner \<Rightarrow> bool \<Rightarrow> console_item list \<times> error option" where
  "run_benchmarks e self verbose =
     (let avail = available_benchmarks self
      in if avail = [] then ([NoBenchmarks], None)
         else
           let (log, results_data) = run_loop e verbose avail [];
               (shown, raised) = display_results (rich_available e) results_data
           in case raised of
                Some err \<Rightarrow> ([Running (length avail)] @ log @ shown, Some err)
              | None \<Rightarrow>
                  ([Running (length avail)] @ log @ shown @
                     (if verbose then display_detailed_output self else []),
                   None))"

text \<open>
  \<open>main\<close>, after the change of directory and the dependency hints. \<open>make_all\<close> is the
  exit code and the standard error of \<open>make all\<close>.
\<close>

definition main :: "env \<Rightarrow> bool \<Rightarrow> bool \<Rightarrow> console_item list \<times> error option" where
  "main e verbose build =
     (if build then
        (if fst (make_all e) \<noteq> 0 then ([Building, BuildFailed (snd (make_all e))], None)
         else
           let (written, raised) = run_benchmarks e (init e) verbose
           in (Building # BuildSuccessful # written, raised))
      else run_benchmarks e (init e) verbose)"

subsection \<open>The aggregate figures in the words of the specification\<close>

text \<open>
  The baseline as the specification words it: the \<open>mflops\<close> of the entry named \<open>basic\<close>
  if there is one, otherwise the least \<open>mflops\<close> of all entries, and nothing for no
  entry at all.
\<close>

definition spec_baseline :: "bench_result list \<Rightarrow> rat option" where
  "spec_baseline results_data =
     (case List.find (\<lambda>r. name r = ''basic'') results_data of
        Some r \<Rightarrow> Some (mflops r)
      | None \<Rightarrow>
          if results_data = [] then None
          else Some (Min (set (map mflops results_data))))"

text \<open>
  The best measurement as the specification words it: position \<open>i\<close> holds an entry of
  the largest \<open>mflops\<close>, and every entry before it has a smaller one.
\<close>

definition first_max_at :: "bench_result list \<Rightarrow> nat \<Rightarrow> bool" where
  "first_max_at results_data i =
     (i < length results_data \<and>
      list_all (\<lambda>r. mflops r \<le> mflops (results_data ! i)) results_data \<and>
      list_all (\<lambda>r. mflops r < mflops (results_data ! i)) (take i results_data))"

subsection \<open>Concrete runs\<close>

text \<open>
  An environment from a table of files and a table of child processes, both keyed by
  absolute path. The working directory is \<open>/bench\<close>; starting a path outside the
  process table fails as a missing file does.
\<close>

definition env_of :: "bool \<Rightarrow> (string \<times> fs_entry) list \<Rightarrow> (string \<times> proc_outcome) list \<Rightarrow> env" where
  "env_of rich file_table proc_table =
     \<lparr>resolve = (\<lambda>filename. ''/bench/'' @ filename),
      files = map_of file_table,
      exec = (\<lambda>p. case map_of proc_table p of
                     Some oc \<Rightarrow> oc
                   | None \<Rightarrow> OtherException ''No such file or directory''),
      rich_available = rich,
      make_all = (0, [])\<rparr>"

definition executable_file :: fs_entry where
  "executable_file = \<lparr>is_file = True, x_ok = True\<rparr>"

definition searchable_directory :: fs_entry where
  "searchable_directory = \<lparr>is_file = False, x_ok = True\<rparr>"

text \<open>
  The end-to-end scenario of the specification: \<open>basic\<close> and \<open>vectorized\<close> are runnable,
  \<open>gpu\<close> is missing, \<open>basic\<close> writes \<open>MFLOPS: 800\<close> and \<open>vectorized\<close> writes
  \<open>4.2 GFLOPS\<close>.
\<close>

definition scenario_env :: "bool \<Rightarrow> env" where
  "scenario_env rich =
     env_of rich
       [(''/bench/basic_benchmark'', executable_file),
        (''/bench/vectorized_benchmark'', executable_file)]
       [(''/bench/basic_benchmark'', Completed 0 ''MFLOPS: 800'' [] 1),
        (''/bench/vectorized_benchmark'', Completed 0 ''4.2 GFLOPS'' [] 2)]"

text \<open>\<open>basic\<close> reports in GFLOPS only, \<open>vectorized\<close> in MFLOPS only.\<close>

definition gflops_basic_env :: env where
  "gflops_basic_env =
     env_of False
       [(''/bench/basic_benchmark'', executable_file),
        (''/bench/vectorized_benchmark'', executable_file)]
       [(''/bench/basic_benchmark'', Completed 0 ''1.5 GFLOPS'' [] 1),
        (''/bench/vectorized_benchmark'', Completed 0 ''MFLOPS: 900'' [] 2)]"

text \<open>Only \<open>vectorized\<close> is built, and it reports in GFLOPS only.\<close>

definition gflops_only_env :: "bool \<Rightarrow> env" where
  "gflops_only_env rich =
     env_of rich
       [(''/bench/vectorized_benchmark'', executable_file)]
       [(''/bench/vectorized_benchmark'', Completed 0 ''4.2 GFLOPS'' [] 2)]"

text \<open>Only \<open>basic\<close> is built.\<close>

definition basic_only_env :: "bool \<Rightarrow> env" where
  "basic_only_env rich =
     env_of rich
       [(''/bench/basic_benchmark'', executable_file)]
       [(''/bench/basic_benchmark'', Completed 0 ''MFLOPS: 800'' [] 1)]"

text \<open>A directory stands where the executable \<open>basic_benchmark\<close> is expected.\<close>

definition directory_fs :: filesystem where
  "directory_fs = map_of [(''/bench/basic_benchmark'', searchable_directory)]"

text \<open>\<open>results_data\<close> after the loop of \<open>run_benchmarks\<close> in environment \<open>e\<close>.\<close>

definition results_data_of :: "env \<Rightarrow> bench_result list" where
  "results_data_of e = snd (run_loop e False (available_benchmarks (init e)) [])"

text \<open>Three measurements, the last two with the same largest \<open>mflops\<close>.\<close>

definition tie_results :: "bench_result list" where
  "tie_results =
     [\<lparr>name = ''basic'', mflops = 500, gflops = 1 / 2, duration = 1, details = [500]\<rparr>,
      \<lparr>name = ''vectorized'', mflops = 700, gflops = 7 / 10, duration = 1, details = [700]\<rparr>,
      \<lparr>name = ''gpu'', mflops = 700, gflops = 7 / 10, duration = 1, details = [700]\<rparr>]"

section \<open>Properties\<close>

subsection \<open>Evaluation rules\<close>

lemmas parse_eval =
  isdigit_def isnumch_def isspace_def digit_val_def digits_val_def float_error_def py_float_def
  match_mflops_at_def match_gflops_at_def append_match_def parse_output_def run_benchmark_def

lemmas format_eval =
  fmt_fixed_def round_half_even_def show_nat.simps digit_char_def title_def title_char_def
  islower_def isupper_def upper_def lower_def ascii_lowercase_def ascii_uppercase_def

subsection \<open>The peaks of a run\<close>

lemma max_from_fold: "max_from m xs = fold max xs m"
proof (induction xs arbitrary: m)
  case Nil
  show ?case by simp
next
  case (Cons x xs)
  have "(if x > m then x else m) = max x m" by (auto simp: max_def)
  then show ?case using Cons by simp
qed

lemma max_from_Max: "max_from m xs = Max (set (m # xs))"
  by (simp only: max_from_fold Max.set_eq_fold)

text \<open>
  C4. A run that exits with code 0 and whose output parses to the samples \<open>ms\<close>
  (MFLOPS) and \<open>gs\<close> (GFLOPS) has \<open>max_gflops\<close> equal to the largest GFLOPS sample if
  there is one, else to the largest MFLOPS sample divided by 1000 if there is one, else
  0; and \<open>max_mflops\<close> equal to the largest MFLOPS sample, or 0 without one. With no
  GFLOPS sample and the MFLOPS samples 500 and 1500, \<open>max_gflops\<close> is 1.5.
\<close>

theorem peaks_of_successful_run:
  assumes "parse_output out = Inr (ms, gs)"
  shows "run_benchmark (Completed 0 out err t) =
           Success out ms gs
             (if ms = [] then 0 else Max (set ms))
             (if gs \<noteq> [] then Max (set gs) else if ms \<noteq> [] then Max (set ms) / 1000 else 0)
             t
         \<and> (ms = [500, 1500] \<and> gs = [] \<longrightarrow>
              max_gflops (run_benchmark (Completed 0 out err t)) = 3 / 2)"
proof -
  have m: "(case ms of [] \<Rightarrow> 0 | m # ms' \<Rightarrow> max_from m ms') = (if ms = [] then 0 else Max (set ms))"
    by (cases ms) (simp_all add: max_from_Max)
  have g: "(case gs of g # gs' \<Rightarrow> max_from g gs'
             | [] \<Rightarrow> (case ms of [] \<Rightarrow> 0 | m # ms' \<Rightarrow> max_from m ms' / 1000)) =
           (if gs \<noteq> [] then Max (set gs) else if ms \<noteq> [] then Max (set ms) / 1000 else 0)"
    by (cases gs; cases ms) (simp_all add: max_from_Max)
  have r: "run_benchmark (Completed 0 out err t) =
           Success out ms gs
             (if ms = [] then 0 else Max (set ms))
             (if gs \<noteq> [] then Max (set gs) else if ms \<noteq> [] then Max (set ms) / 1000 else 0)
             t"
    by (simp add: run_benchmark_def assms m g)
  show ?thesis unfolding r by simp
qed

lemma parse_500_1500: "parse_output ''MFLOPS: 500\<newline>MFLOPS: 1500'' = Inr ([500, 1500], [])"
  by (simp add: parse_eval)

theorem peaks_of_successful_run_witness:
  "parse_output ''MFLOPS: 500\<newline>MFLOPS: 1500'' = Inr ([500, 1500], [])
   \<and> max_mflops (run_benchmark (Completed 0 ''MFLOPS: 500\<newline>MFLOPS: 1500'' [] 1)) = 1500
   \<and> max_gflops (run_benchmark (Completed 0 ''MFLOPS: 500\<newline>MFLOPS: 1500'' [] 1)) = 3 / 2"
  using peaks_of_successful_run [OF parse_500_1500, of "[]" 1] parse_500_1500 by simp

subsection \<open>The timeout\<close>

text \<open>
  C5. When the child process outlives the 120 seconds, whatever it wrote before it was
  killed, the run is a failure with the error text
  \<open>Benchmark timed out after 120 seconds\<close> and the duration 120.
\<close>

theorem timeout_result:
  "run_benchmark (TimeoutExpired out err) = Failure ''Benchmark timed out after 120 seconds'' 120
   \<and> \<not> success (run_benchmark (TimeoutExpired out err))
   \<and> fail_duration (run_benchmark (TimeoutExpired out err)) = 120"
  by (simp add: run_benchmark_def)

theorem timeout_result_witness:
  "run_benchmark (TimeoutExpired ''MFLOPS: 800'' []) =
     Failure ''Benchmark timed out after 120 seconds'' 120"
  using timeout_result [of "''MFLOPS: 800''" "[]"] by blast

subsection \<open>A token that is not a number\<close>

text \<open>
  C2. The parse is not total. On the output \<open>MFLOPS: 1.2.3\<close> of a run that exited with
  code 0 the pattern captures \<open>1.2.3\<close>, \<open>float\<close> raises \<open>ValueError\<close>, no sample
  sequence is returned, and the run is reported as failed with that error text and the
  duration 0.
\<close>

theorem malformed_number_fails_run:
  "parse_output ''MFLOPS: 1.2.3'' = Inl (float_error ''1.2.3'')
   \<and> run_benchmark (Completed 0 ''MFLOPS: 1.2.3'' [] 5) =
       Failure (''could not convert string to float: '' @ [CHR 0x27] @ ''1.2.3'' @ [CHR 0x27]) 0"
  by (simp add: parse_eval)

subsection \<open>The concrete runs, evaluated\<close>

lemmas detect_eval =
  env_of_def executable_file_def searchable_directory_def init_def detect_benchmarks_def
  benchmark_files_def path_exists_def path_is_file_def os_access_x_def available_benchmarks_def

lemmas display_eval =
  display_results_def baseline_mflops_def make_row_def relative_of_def

lemma run_mflops_800:
  "run_benchmark (Completed 0 ''MFLOPS: 800'' [] 1) = Success ''MFLOPS: 800'' [800] [] 800 (4 / 5) 1"
  by (simp add: parse_eval)

lemma run_gflops_42:
  "run_benchmark (Completed 0 ''4.2 GFLOPS'' [] 2) = Success ''4.2 GFLOPS'' [] [21 / 5] 0 (21 / 5) 2"
  by (simp add: parse_eval)

lemma scenario_available:
  "available_benchmarks (init (scenario_env rich)) =
     [(''basic'', \<lparr>available = True, path = ''/bench/basic_benchmark'', executable = True\<rparr>),
      (''vectorized'', \<lparr>available = True, path = ''/bench/vectorized_benchmark'', executable = True\<rparr>)]"
  by (simp add: scenario_env_def detect_eval)

lemma scenario_exec:
  "exec (scenario_env rich) ''/bench/basic_benchmark'' = Completed 0 ''MFLOPS: 800'' [] 1"
  "exec (scenario_env rich) ''/bench/vectorized_benchmark'' = Completed 0 ''4.2 GFLOPS'' [] 2"
  "rich_available (scenario_env rich) = rich"
  by (simp_all add: scenario_env_def env_of_def)

lemma scenario_results_data:
  "results_data_of (scenario_env rich) =
     [\<lparr>name = ''basic'', mflops = 800, gflops = 4 / 5, duration = 1, details = [800]\<rparr>,
      \<lparr>name = ''vectorized'', mflops = 0, gflops = 21 / 5, duration = 2, details = []\<rparr>]"
  by (simp add: results_data_of_def scenario_available scenario_exec run_mflops_800 run_gflops_42)

lemma gflops_only_available:
  "available_benchmarks (init (gflops_only_env rich)) =
     [(''vectorized'', \<lparr>available = True, path = ''/bench/vectorized_benchmark'', executable = True\<rparr>)]"
  by (simp add: gflops_only_env_def detect_eval)

lemma gflops_only_exec:
  "exec (gflops_only_env rich) ''/bench/vectorized_benchmark'' = Completed 0 ''4.2 GFLOPS'' [] 2"
  "rich_available (gflops_only_env rich) = rich"
  by (simp_all add: gflops_only_env_def env_of_def)

lemma basic_only_available:
  "available_benchmarks (init (basic_only_env rich)) =
     [(''basic'', \<lparr>available = True, path = ''/bench/basic_benchmark'', executable = True\<rparr>)]"
  by (simp add: basic_only_env_def detect_eval)

lemma basic_only_exec:
  "exec (basic_only_env rich) ''/bench/basic_benchmark'' = Completed 0 ''MFLOPS: 800'' [] 1"
  "rich_available (basic_only_env rich) = rich"
  by (simp_all add: basic_only_env_def env_of_def)

subsection \<open>The end-to-end scenario\<close>

text \<open>
  C1, as the specification states it, fails. In the scenario the entry of \<open>vectorized\<close>
  has \<open>mflops = 0\<close>, since its output holds no MFLOPS sample and \<open>max_mflops\<close> is not
  derived from the GFLOPS samples; so its relative factor is \<open>0.0x\<close> and not \<open>5.3x\<close>,
  and the entry of the largest \<open>mflops\<close> is \<open>basic\<close> and not \<open>vectorized\<close>.
\<close>

theorem scenario_report_counterexample:
  "relative (make_row False (baseline_mflops (results_data_of (scenario_env False)))
               (results_data_of (scenario_env False) ! 1)) = ''0.0x''
   \<and> map_sum id name (max_result (results_data_of (scenario_env False))) = Inr ''basic''
   \<and> \<not> (baseline_mflops (results_data_of (scenario_env False)) = Some 800
         \<and> relative (make_row False (baseline_mflops (results_data_of (scenario_env False)))
                       (results_data_of (scenario_env False) ! 1)) = ''5.3x''
         \<and> map_sum id name (max_result (results_data_of (scenario_env False))) = Inr ''vectorized'')"
  apply (simp only: scenario_results_data)
  apply (simp add: display_eval)
  apply (simp add: format_eval)
  done

text \<open>
  C1, amended. In the scenario, with either rendering: the baseline is 800 MFLOPS; the
  entry of \<open>vectorized\<close> has \<open>gflops = 4.2\<close> and \<open>mflops = 0\<close>, is displayed as
  \<open>4.20 GFLOPS\<close> and has the relative factor \<open>0.0x\<close>; the best measurement is the one
  named \<open>basic\<close>; and the program returns without an exception.
\<close>

theorem scenario_report:
  "results_data_of (scenario_env rich) =
     [\<lparr>name = ''basic'', mflops = 800, gflops = 4 / 5, duration = 1, details = [800]\<rparr>,
      \<lparr>name = ''vectorized'', mflops = 0, gflops = 21 / 5, duration = 2, details = []\<rparr>]
   \<and> baseline_mflops (results_data_of (scenario_env rich)) = Some 800
   \<and> map (\<lambda>r. (row_name r, perf r, relative r))
        (map (make_row rich (baseline_mflops (results_data_of (scenario_env rich))))
           (results_data_of (scenario_env rich))) =
       [(''Basic'', ''800 MFLOPS'', ''1.0x''), (''Vectorized'', ''4.20 GFLOPS'', ''0.0x'')]
   \<and> map_sum id name (max_result (results_data_of (scenario_env rich))) = Inr ''basic''
   \<and> snd (main (scenario_env rich) False False) = None"
  apply (simp only: scenario_results_data)
  apply (simp add: display_eval)
  apply (simp add: format_eval)
  apply (simp add: main_def run_benchmarks_def scenario_available scenario_exec
      run_mflops_800 run_gflops_42 Let_def display_eval split: prod.splits)
  done

theorem scenario_report_witness:
  "baseline_mflops (results_data_of (scenario_env True)) = Some 800
   \<and> map_sum id name (max_result (results_data_of (scenario_env True))) = Inr ''basic''
   \<and> snd (main (scenario_env True) False False) = None"
  using scenario_report [of True] by blast

text \<open>
  Had the 4.2 GFLOPS been counted as 4200 MFLOPS, the factor 4200 / 800 = 5.25 would
  still be written \<open>5.2x\<close>: the format rounds a tie to the even digit.
\<close>

lemma converted_factor_is_5_2: "fmt_fixed 1 (4200 / 800) = ''5.2''"
  by code_simp

subsection \<open>The baseline\<close>

lemma min_from_fold: "min_from m xs = fold min xs m"
proof (induction xs arbitrary: m)
  case Nil
  show ?case by simp
next
  case (Cons x xs)
  have "(if x < m then x else m) = min x m" by (auto simp: min_def)
  then show ?case using Cons by simp
qed

lemma min_from_Min: "min_from m xs = Min (set (m # xs))"
  by (simp only: min_from_fold Min.set_eq_fold)

lemma find_basic_find:
  "find_basic rd = map_option mflops (List.find (\<lambda>r. name r = ''basic'') rd)"
  by (induction rd) simp_all

text \<open>
  On entries without a negative \<open>mflops\<close> the program's baseline is the specification's.
  The one case where the program leaves the entry \<open>basic\<close> for the minimum is
  \<open>mflops = 0\<close> of \<open>basic\<close>, and then the minimum is that 0.
\<close>

lemma baseline_of_nonneg:
  assumes nonneg: "\<forall>r \<in> set rd. 0 \<le> mflops r"
  shows "baseline_mflops rd = spec_baseline rd"
proof (cases "List.find (\<lambda>r. name r = ''basic'') rd")
  case None
  then show ?thesis
    by (cases rd) (simp_all add: baseline_mflops_def spec_baseline_def find_basic_find min_from_Min)
next
  case (Some b)
  then have b_in: "b \<in> set rd"
    by (auto simp: find_Some_iff)
  then obtain r rs where rd: "rd = r # rs" by (cases rd) auto
  show ?thesis
  proof (cases "mflops b = 0")
    case False
    then show ?thesis using Some
      by (simp add: baseline_mflops_def spec_baseline_def find_basic_find)
  next
    case True
    have "Min (set (map mflops rd)) = 0"
    proof (rule Min_eqI)
      show "finite (set (map mflops rd))" by simp
      show "\<And>y. y \<in> set (map mflops rd) \<Longrightarrow> 0 \<le> y" using nonneg by auto
      show "0 \<in> set (map mflops rd)" using b_in True by force
    qed
    then show ?thesis using Some True rd
      by (simp add: baseline_mflops_def spec_baseline_def find_basic_find min_from_Min)
  qed
qed

text \<open>No sample is negative: the patterns capture no sign.\<close>

lemma py_float_nonneg: "py_float s = Inr v \<Longrightarrow> 0 \<le> v"
  by (auto simp: py_float_def Let_def split: list.splits if_splits)

lemma append_match_nonneg:
  "append_match m vs = Inr vs' \<Longrightarrow> \<forall>v \<in> set vs. 0 \<le> v \<Longrightarrow> \<forall>v \<in> set vs'. 0 \<le> v"
  by (auto simp: append_match_def split: option.splits sum.splits dest: py_float_nonneg)

lemma parse_lines_nonneg:
  "parse_lines ls ms0 gs0 = Inr (ms, gs) \<Longrightarrow> \<forall>v \<in> set ms0. 0 \<le> v \<Longrightarrow> \<forall>v \<in> set ms. 0 \<le> v"
proof (induction ls arbitrary: ms0 gs0)
  case Nil
  then show ?case by simp
next
  case (Cons l ls)
  from Cons.prems(1) obtain ms1 gs1 where
    a: "append_match (search_mflops l) ms0 = Inr ms1" and
    r: "parse_lines ls ms1 gs1 = Inr (ms, gs)"
    by (auto split: sum.splits)
  from append_match_nonneg [OF a Cons.prems(2)] Cons.IH [OF r] show ?case by blast
qed

lemma max_from_nonneg: "0 \<le> m \<Longrightarrow> 0 \<le> max_from m xs"
  by (induction xs arbitrary: m) auto

lemma run_benchmark_nonneg:
  assumes "run_benchmark oc = Success out ms gs mm mg d"
  shows "0 \<le> mm"
proof (cases oc)
  case (Completed rc out' err t)
  with assms obtain gs' where p: "parse_output out' = Inr (ms, gs')" and
    mm: "mm = (case ms of [] \<Rightarrow> 0 | m # ms' \<Rightarrow> max_from m ms')"
    by (auto simp: run_benchmark_def split: if_splits sum.splits)
  from p have nn: "\<forall>v \<in> set ms. 0 \<le> v"
    unfolding parse_output_def by (rule parse_lines_nonneg) simp
  show ?thesis unfolding mm using nn by (cases ms) (simp_all add: max_from_nonneg)
next
  case (TimeoutExpired a b)
  with assms show ?thesis by (simp add: run_benchmark_def)
next
  case (OtherException m)
  with assms show ?thesis by (simp add: run_benchmark_def)
qed

lemma run_loop_nonneg:
  "\<forall>r \<in> set acc. 0 \<le> mflops r \<Longrightarrow> \<forall>r \<in> set (snd (run_loop e verbose avail acc)). 0 \<le> mflops r"
proof (induction avail arbitrary: acc)
  case Nil
  then show ?case by simp
next
  case (Cons a avail)
  obtain n info where a: "a = (n, info)" by (cases a)
  show ?case
  proof (cases "run_benchmark (exec e (path info))")
    case (Success out ms gs mm mg d)
    then have "0 \<le> mm" by (rule run_benchmark_nonneg)
    with Cons.prems have
      "\<forall>r \<in> set (acc @ [\<lparr>name = n, mflops = mm, gflops = mg, duration = d, details = ms\<rparr>]). 0 \<le> mflops r"
      by simp
    from Cons.IH [OF this] show ?thesis
      using Success a by (simp add: Let_def split: prod.splits)
  next
    case (Failure err d)
    from Cons.IH [OF Cons.prems] show ?thesis
      using Failure a by (simp add: Let_def split: prod.splits)
  qed
qed

text \<open>
  C3. For the successful measurements that the run loop collects, whatever the
  environment and the benchmarks run, the baseline the program computes is the \<open>mflops\<close>
  of the measurement named \<open>basic\<close> if there is one, otherwise the least \<open>mflops\<close> of
  all measurements, and it is undefined only when there is no measurement.
\<close>

theorem baseline_of_run:
  "baseline_mflops (snd (run_loop e verbose avail [])) =
     spec_baseline (snd (run_loop e verbose avail []))"
  by (rule baseline_of_nonneg) (rule run_loop_nonneg, simp)

lemma gflops_basic_available:
  "available_benchmarks (init gflops_basic_env) =
     [(''basic'', \<lparr>available = True, path = ''/bench/basic_benchmark'', executable = True\<rparr>),
      (''vectorized'', \<lparr>available = True, path = ''/bench/vectorized_benchmark'', executable = True\<rparr>)]"
  by (simp add: gflops_basic_env_def detect_eval)

lemma gflops_basic_results:
  "snd (run_loop gflops_basic_env False (available_benchmarks (init gflops_basic_env)) []) =
     [\<lparr>name = ''basic'', mflops = 0, gflops = 3 / 2, duration = 1, details = []\<rparr>,
      \<lparr>name = ''vectorized'', mflops = 900, gflops = 9 / 10, duration = 2, details = [900]\<rparr>]"
  apply (simp only: gflops_basic_available)
  apply (simp add: gflops_basic_env_def env_of_def parse_eval)
  done

theorem baseline_of_run_witness:
  "spec_baseline
     [\<lparr>name = ''basic'', mflops = 0, gflops = 3 / 2, duration = 1, details = []\<rparr>,
      \<lparr>name = ''vectorized'', mflops = 900, gflops = 9 / 10, duration = 2, details = [900]\<rparr>] = Some 0
   \<and> baseline_mflops
     [\<lparr>name = ''basic'', mflops = 0, gflops = 3 / 2, duration = 1, details = []\<rparr>,
      \<lparr>name = ''vectorized'', mflops = 900, gflops = 9 / 10, duration = 2, details = [900]\<rparr>] = Some 0"
proof -
  let ?rd = "[\<lparr>name = ''basic'', mflops = 0, gflops = 3 / 2, duration = 1, details = []\<rparr>,
      \<lparr>name = ''vectorized'', mflops = 900, gflops = 9 / 10, duration = 2, details = [900]\<rparr>]"
  have b: "baseline_mflops ?rd = Some 0"
    by (simp add: baseline_mflops_def)
  have "baseline_mflops ?rd = spec_baseline ?rd"
    using baseline_of_run [of gflops_basic_env False "available_benchmarks (init gflops_basic_env)"]
    by (simp only: gflops_basic_results)
  with b show ?thesis by simp
qed

subsection \<open>The summary under a zero baseline\<close>

text \<open>
  With the rich rendering and a baseline that is zero the rows are written with \<open>N/A\<close>
  and then the summary panel divides by the baseline; the plain rendering returns.
\<close>

lemma rich_display_raises:
  assumes "results_data \<noteq> []" "\<not> truthy (baseline_mflops results_data)"
  shows "snd (display_results True results_data) = Some ZeroDivisionError"
proof -
  obtain r rs where rd: "results_data = r # rs" using assms(1) by (cases results_data) auto
  have "baseline_mflops results_data \<noteq> None"
    by (cases "find_basic (r # rs)") (auto simp: baseline_mflops_def rd Let_def)
  with assms(2) have "baseline_mflops results_data = Some 0"
    by (cases "baseline_mflops results_data") auto
  then show ?thesis
    by (simp add: display_results_def rd Let_def)
qed

lemma plain_display_returns: "snd (display_results False results_data) = None"
  by (cases results_data) (simp_all add: display_results_def Let_def)

text \<open>
  C7 fails on the rich rendering. With \<open>vectorized\<close> the only benchmark built, writing
  \<open>4.2 GFLOPS\<close>, its \<open>mflops\<close> is 0 and so is the baseline: the table is written with
  the relative factor \<open>N/A\<close>, and the summary raises \<open>ZeroDivisionError\<close>, which leaves
  \<open>run_benchmarks\<close> and \<open>main\<close>.
\<close>

theorem zero_baseline_raises:
  "main (gflops_only_env True) False False =
     ([Running 1,
       ResultsTable
         [\<lparr>row_name = ''Vectorized'', perf = ''4.20 GFLOPS'', perf_style = Some ''bold green'',
           relative = ''N/A'', row_duration = ''2.0s''\<rparr>]],
      Some ZeroDivisionError)"
  apply (simp add: main_def run_benchmarks_def gflops_only_available gflops_only_exec
      run_gflops_42 display_eval)
  apply (simp add: format_eval)
  done

lemma zero_baseline_plain:
  "main (gflops_only_env False) False False =
     ([Running 1, RunningOne ''vectorized'',
       ResultsTable
         [\<lparr>row_name = ''Vectorized'', perf = ''4.20 GFLOPS'', perf_style = None,
           relative = ''N/A'', row_duration = ''2.0s''\<rparr>],
       SummaryPanel
         \<lparr>peak_performance = ''4.20 GFLOPS'', best_configuration = ''Vectorized'',
          speed_improvement = None\<rparr>],
      None)"
  apply (simp add: main_def run_benchmarks_def gflops_only_available gflops_only_exec
      run_gflops_42 display_eval)
  apply (simp add: format_eval)
  done

subsection \<open>The verbose detail view\<close>

lemma detailed_output_of_init: "display_detailed_output (init e) = [DetailHeader]"
  by (simp add: display_detailed_output_def init_def)

lemma run_loop_no_panel: "DetailPanel t b \<notin> set (fst (run_loop e verbose avail acc))"
proof (induction avail arbitrary: acc)
  case Nil
  show ?case by simp
next
  case (Cons a avail)
  obtain n info where a: "a = (n, info)" by (cases a)
  show ?case using Cons.IH
    by (cases "run_benchmark (exec e (path info))") (simp_all add: a Let_def case_prod_beta)
qed

lemma display_results_no_panel: "DetailPanel t b \<notin> set (fst (display_results rich rd))"
  by (auto simp: display_results_def Let_def split: sum.splits)

lemma run_benchmarks_no_panel:
  "DetailPanel t b \<notin> set (fst (run_benchmarks e (init e) verbose))"
  by (simp add: run_benchmarks_def Let_def case_prod_beta detailed_output_of_init
      run_loop_no_panel display_results_no_panel split: option.splits)

text \<open>Whatever the environment and the flags, no run writes the output of a benchmark.\<close>

lemma never_a_detail_panel: "DetailPanel t b \<notin> set (fst (main e verbose build))"
  by (simp add: main_def run_benchmarks_no_panel case_prod_beta)

text \<open>
  C8 fails. With \<open>--verbose\<close> and \<open>basic\<close> the only benchmark built, writing
  \<open>MFLOPS: 800\<close>, the program writes the completion line, the table, the summary and the
  header of the detail view, and no panel with the captured output: the detail view reads
  \<open>self.results\<close>, which is empty from \<open>__init__\<close> on.
\<close>

theorem verbose_shows_no_output:
  "main (basic_only_env False) True False =
     ([Running 1, RunningOne ''basic'', CompletedLine ''basic'' ''1.00'',
       ResultsTable
         [\<lparr>row_name = ''Basic'', perf = ''800 MFLOPS'', perf_style = None,
           relative = ''1.0x'', row_duration = ''1.0s''\<rparr>],
       SummaryPanel
         \<lparr>peak_performance = ''0.80 GFLOPS'', best_configuration = ''Basic'',
          speed_improvement = None\<rparr>,
       DetailHeader],
      None)
   \<and> DetailPanel ''Basic Benchmark'' ''MFLOPS: 800'' \<notin> set (fst (main (basic_only_env False) True False))"
  apply (simp add: main_def run_benchmarks_def basic_only_available basic_only_exec
      run_mflops_800 display_eval detailed_output_of_init)
  apply (simp add: format_eval)
  done

subsection \<open>Detection\<close>

text \<open>
  C10, as the specification states it, fails: a directory at the expected path is not
  available (it is no regular file) and is executable (\<open>os.access\<close> accepts it).
\<close>

theorem executable_without_file_counterexample:
  "(''basic'', \<lparr>available = False, path = ''/bench/basic_benchmark'', executable = True\<rparr>)
     \<in> set (detect_benchmarks (\<lambda>f. ''/bench/'' @ f) directory_fs)"
  by (simp add: directory_fs_def detect_eval)

text \<open>
  C10, amended. For every descriptor that detection produces, \<open>executable\<close> implies that
  the path exists in the file system, as a regular file or not: where nothing exists at
  the path, \<open>executable\<close> is false.
\<close>

theorem executable_implies_path_exists:
  assumes "(n, info) \<in> set (detect_benchmarks res fs)" "executable info"
  shows "path_exists fs (path info)"
  using assms by (auto simp: detect_benchmarks_def Let_def split: if_splits)

theorem executable_implies_path_exists_witness:
  "(''basic'', \<lparr>available = True, path = ''/bench/basic_benchmark'', executable = True\<rparr>)
     \<in> set (detect_benchmarks (\<lambda>f. ''/bench/'' @ f) (map_of [(''/bench/basic_benchmark'', executable_file)]))
   \<and> executable \<lparr>available = True, path = ''/bench/basic_benchmark'', executable = True\<rparr>
   \<and> path_exists (map_of [(''/bench/basic_benchmark'', executable_file)]) ''/bench/basic_benchmark''"
proof -
  have m: "(''basic'', \<lparr>available = True, path = ''/bench/basic_benchmark'', executable = True\<rparr>)
     \<in> set (detect_benchmarks (\<lambda>f. ''/bench/'' @ f) (map_of [(''/bench/basic_benchmark'', executable_file)]))"
    by (simp add: detect_eval)
  have x: "executable \<lparr>available = True, path = ''/bench/basic_benchmark'', executable = True\<rparr>"
    by simp
  from executable_implies_path_exists [OF m x] m x show ?thesis by simp
qed

subsection \<open>The best measurement\<close>

lemma first_max_step:
  assumes "first_max_at xs i"
  shows "\<exists>k. first_max_at (xs @ [r]) k \<and>
             (xs @ [r]) ! k = (if mflops r > mflops (xs ! i) then r else xs ! i)"
proof (cases "mflops r > mflops (xs ! i)")
  case True
  have "first_max_at (xs @ [r]) (length xs)"
    using assms True by (auto simp: first_max_at_def list_all_iff)
  then show ?thesis using True by auto
next
  case False
  have "first_max_at (xs @ [r]) i"
    using assms False by (auto simp: first_max_at_def list_all_iff nth_append)
  moreover have "(xs @ [r]) ! i = xs ! i"
    using assms by (simp add: first_max_at_def nth_append)
  ultimately show ?thesis using False by auto
qed

lemma max_by_mflops_first_max:
  assumes "first_max_at xs i"
  shows "\<exists>k. first_max_at (xs @ rs) k \<and> (xs @ rs) ! k = max_by_mflops (xs ! i) rs"
  using assms
proof (induction rs arbitrary: xs i)
  case Nil
  then show ?case by auto
next
  case (Cons r rs)
  from first_max_step [OF Cons.prems, of r] obtain k where
    k: "first_max_at (xs @ [r]) k" and
    v: "(xs @ [r]) ! k = (if mflops r > mflops (xs ! i) then r else xs ! i)"
    by blast
  from Cons.IH [OF k] obtain j where
    "first_max_at ((xs @ [r]) @ rs) j" "((xs @ [r]) @ rs) ! j = max_by_mflops ((xs @ [r]) ! k) rs"
    by blast
  then show ?case using v by auto
qed

lemma max_result_first_max:
  assumes "rd \<noteq> []"
  shows "\<exists>i. first_max_at rd i \<and> max_result rd = Inr (rd ! i)"
proof -
  obtain r rs where rd: "rd = r # rs" using assms by (cases rd) auto
  have "first_max_at [r] 0" by (simp add: first_max_at_def)
  from max_by_mflops_first_max [OF this, of rs] show ?thesis by (auto simp: rd)
qed

lemma run_loop_names:
  "subseq (map name (snd (run_loop e verbose avail acc))) (map name acc @ map fst avail)"
proof (induction avail arbitrary: acc)
  case Nil
  show ?case by simp
next
  case (Cons a avail)
  obtain n info where a: "a = (n, info)" by (cases a)
  show ?case
  proof (cases "run_benchmark (exec e (path info))")
    case (Success out ms gs mm mg d)
    from Cons.IH [of "acc @ [\<lparr>name = n, mflops = mm, gflops = mg, duration = d, details = ms\<rparr>]"]
    show ?thesis using Success a by (simp add: Let_def case_prod_beta)
  next
    case (Failure err d)
    have "subseq (map name acc @ map fst avail) (map name acc @ n # map fst avail)"
      by (simp add: subseq_append' list_emb_Cons)
    with Cons.IH [of acc] have
      "subseq (map name (snd (run_loop e verbose avail acc))) (map name acc @ n # map fst avail)"
      by (rule subseq_order.trans)
    then show ?thesis using Failure a by (simp add: Let_def case_prod_beta)
  qed
qed

lemma available_names:
  "subseq (map fst (available_benchmarks (init e))) [''basic'', ''vectorized'', ''gpu'']"
proof -
  have "map fst (benchmarks (init e)) = [''basic'', ''vectorized'', ''gpu'']"
    by (simp add: init_def detect_benchmarks_def benchmark_files_def Let_def)
  moreover have "subseq (map fst (available_benchmarks (init e))) (map fst (benchmarks (init e)))"
    unfolding available_benchmarks_def by (intro subseq_map subseq_filter_left)
  ultimately show ?thesis by simp
qed

text \<open>
  C6. For every nonempty list of successful measurements the best measurement is the
  entry at a position that holds the largest \<open>mflops\<close> and has only smaller ones before
  it: the first of the maxima in processing order. The measurements are processed in
  the order of detection: their names are a subsequence of \<open>basic\<close>, \<open>vectorized\<close>,
  \<open>gpu\<close>.
\<close>

theorem best_is_first_maximum:
  assumes "rd \<noteq> []"
  shows "(\<exists>i. first_max_at rd i \<and> max_result rd = Inr (rd ! i))
         \<and> subseq (map name (snd (run_loop e verbose (available_benchmarks (init e)) [])))
              [''basic'', ''vectorized'', ''gpu'']"
proof
  show "\<exists>i. first_max_at rd i \<and> max_result rd = Inr (rd ! i)"
    using assms by (rule max_result_first_max)
  have "subseq (map name (snd (run_loop e verbose (available_benchmarks (init e)) [])))
          (map fst (available_benchmarks (init e)))"
    using run_loop_names [of e verbose "available_benchmarks (init e)" "[]"] by simp
  then show "subseq (map name (snd (run_loop e verbose (available_benchmarks (init e)) [])))
          [''basic'', ''vectorized'', ''gpu'']"
    using available_names by (rule subseq_order.trans)
qed

theorem best_is_first_maximum_witness:
  "tie_results \<noteq> []
   \<and> (\<exists>i. first_max_at tie_results i \<and> max_result tie_results = Inr (tie_results ! i))
   \<and> first_max_at tie_results 1
   \<and> map_sum id name (max_result tie_results) = Inr ''vectorized''"
proof -
  have ne: "tie_results \<noteq> []" by (simp add: tie_results_def)
  from best_is_first_maximum [OF ne] ne show ?thesis
    by (simp add: tie_results_def first_max_at_def)
qed

subsection \<open>A tagged sample on a line\<close>

lemma match_tag:
  assumes "post = [] \<or> \<not> isnumch (hd post)"
  shows "match_mflops_at (''MFLOPS: 1234.5'' @ post) = Some ''1234.5''"
proof (cases post)
  case Nil
  then show ?thesis
    by (simp add: match_mflops_at_def isspace_def isnumch_def isdigit_def)
next
  case (Cons c cs)
  with assms have "\<not> isnumch c" by simp
  then have t: "takeWhile isnumch (c # cs) = []" by simp
  have "takeWhile isnumch (''1234.5'' @ c # cs) = ''1234.5'' @ takeWhile isnumch (c # cs)"
    by (rule takeWhile_append2) (auto simp: isnumch_def isdigit_def)
  then have "takeWhile isnumch (''1234.5'' @ c # cs) = ''1234.5''"
    unfolding t by simp
  then show ?thesis unfolding Cons
    by (simp add: match_mflops_at_def isspace_def)
qed

lemma no_number_after_blanks:
  assumes "takeWhile isnumch (dropWhile isspace q) = []"
  shows "takeWhile isnumch (dropWhile isspace (q @ CHR ''M'' # r)) = []"
  using assms
proof (induction q)
  case Nil
  show ?case by (simp add: isspace_def isnumch_def isdigit_def)
next
  case (Cons c cs)
  then show ?case by (cases "isspace c") (auto split: if_splits)
qed

lemma tag_not_across:
  assumes "p \<noteq> []" "length p < 7"
  shows "take 7 (p @ CHR ''M'' # r) \<noteq> ''MFLOPS:''"
proof
  assume eq: "take 7 (p @ CHR ''M'' # r) = ''MFLOPS:''"
  have "take 7 (p @ CHR ''M'' # r) ! length p = CHR ''M''"
    using assms(2) by (simp add: nth_append)
  with eq have m: "''MFLOPS:'' ! length p = CHR ''M''" by simp
  have "0 < length p" using assms(1) by simp
  with assms(2) have "length p = 1 \<or> length p = 2 \<or> length p = 3 \<or> length p = 4
      \<or> length p = 5 \<or> length p = 6" by linarith
  with m show False by (elim disjE) simp_all
qed

lemma match_None_append:
  assumes "match_mflops_at p = None" "p \<noteq> []"
  shows "match_mflops_at (p @ CHR ''M'' # r) = None"
proof (cases "length p < 7")
  case True
  with assms(2) have "take 7 (p @ CHR ''M'' # r) \<noteq> ''MFLOPS:''" by (rule tag_not_across)
  then show ?thesis by (simp add: match_mflops_at_def)
next
  case False
  then have t: "take 7 (p @ CHR ''M'' # r) = take 7 p" and
    d: "drop 7 (p @ CHR ''M'' # r) = drop 7 p @ CHR ''M'' # r"
    by simp_all
  show ?thesis
  proof (cases "take 7 p = ''MFLOPS:''")
    case True
    with assms(1) have "takeWhile isnumch (dropWhile isspace (drop 7 p)) = []"
      by (simp add: match_mflops_at_def Let_def split: if_splits)
    then have "takeWhile isnumch (dropWhile isspace (drop 7 p @ CHR ''M'' # r)) = []"
      by (rule no_number_after_blanks)
    then show ?thesis unfolding match_mflops_at_def t d by (simp add: Let_def)
  next
    case False
    then show ?thesis unfolding match_mflops_at_def t by simp
  qed
qed

lemma search_mflops_append:
  assumes "search_mflops pre = None"
  shows "search_mflops (pre @ CHR ''M'' # r) = search_mflops (CHR ''M'' # r)"
  using assms
proof (induction pre)
  case Nil
  show ?case by simp
next
  case (Cons c cs)
  from Cons.prems have m: "match_mflops_at (c # cs) = None" and s: "search_mflops cs = None"
    by (auto split: option.splits)
  from m have "match_mflops_at ((c # cs) @ CHR ''M'' # r) = None"
    by (rule match_None_append) simp
  then show ?case using Cons.IH [OF s] by simp
qed

lemma search_tagged_line:
  assumes "search_mflops pre = None" "post = [] \<or> \<not> isnumch (hd post)"
  shows "search_mflops (pre @ ''MFLOPS: 1234.5'' @ post) = Some ''1234.5''"
proof -
  have "search_mflops (pre @ ''MFLOPS: 1234.5'' @ post) = search_mflops (''MFLOPS: 1234.5'' @ post)"
    using search_mflops_append [OF assms(1), of "''FLOPS: 1234.5'' @ post"] by simp
  also have "\<dots> = Some ''1234.5''"
    using match_tag [OF assms(2)] by simp
  finally show ?thesis .
qed

lemma float_1234_5: "py_float ''1234.5'' = Inr (2469 / 2)"
  by (simp add: parse_eval)

lemma append_match_grows: "append_match m vs = Inr vs' \<Longrightarrow> set vs \<subseteq> set vs'"
  by (auto simp: append_match_def split: option.splits sum.splits)

lemma parse_lines_keeps:
  "parse_lines ls ms0 gs0 = Inr (ms, gs) \<Longrightarrow> set ms0 \<subseteq> set ms"
proof (induction ls arbitrary: ms0 gs0)
  case Nil
  then show ?case by simp
next
  case (Cons l ls)
  from Cons.prems obtain ms1 gs1 where
    a: "append_match (search_mflops l) ms0 = Inr ms1" and
    r: "parse_lines ls ms1 gs1 = Inr (ms, gs)"
    by (auto split: sum.splits)
  from append_match_grows [OF a] Cons.IH [OF r] show ?case by blast
qed

lemma parse_lines_member:
  assumes "parse_lines ls ms0 gs0 = Inr (ms, gs)" "l \<in> set ls"
    "search_mflops l = Some g" "py_float g = Inr v"
  shows "v \<in> set ms"
  using assms(1,2)
proof (induction ls arbitrary: ms0 gs0)
  case Nil
  then show ?case by simp
next
  case (Cons x xs)
  from Cons.prems(1) obtain ms1 gs1 where
    a: "append_match (search_mflops x) ms0 = Inr ms1" and
    r: "parse_lines xs ms1 gs1 = Inr (ms, gs)"
    by (auto split: sum.splits)
  show ?case
  proof (cases "l = x")
    case True
    with a assms(3,4) have "v \<in> set ms1" by (auto simp: append_match_def)
    with parse_lines_keeps [OF r] show ?thesis by blast
  next
    case False
    with Cons.prems(2) have "l \<in> set xs" by simp
    from Cons.IH [OF r this] show ?thesis .
  qed
qed

text \<open>
  C9, as the specification states it, fails: the line \<open>MFLOPS: 1234.56\<close> contains
  \<open>MFLOPS: 1234.5\<close>, and the sample it contributes is 1234.56, since the group takes
  every digit and point that follows. The text after the number does matter.
\<close>

theorem tagged_sample_counterexample:
  "''MFLOPS: 1234.56'' \<in> set (split_nl ''MFLOPS: 1234.56'')
   \<and> ''MFLOPS: 1234.56'' = [] @ ''MFLOPS: 1234.5'' @ ''6''
   \<and> parse_output ''MFLOPS: 1234.56'' = Inr ([30864 / 25], [])
   \<and> (2469 / 2 :: rat) \<notin> set [30864 / 25]"
  by (simp add: parse_eval)

text \<open>
  C9, amended. Let a line of the captured text be \<open>pre\<close>, then \<open>MFLOPS: 1234.5\<close>, then
  \<open>post\<close>, where the tagged pattern has no match that starts in \<open>pre\<close> and \<open>post\<close> does
  not begin with a digit or a point. Then that line appends exactly 1234.5 to the MFLOPS
  samples, and whenever the parse of the whole text returns samples, 1234.5 is among the
  MFLOPS samples.
\<close>

theorem tagged_sample_parsed:
  assumes "line \<in> set (split_nl text)"
    and "line = pre @ ''MFLOPS: 1234.5'' @ post"
    and "search_mflops pre = None"
    and "post = [] \<or> \<not> isnumch (hd post)"
    and "parse_output text = Inr (ms, gs)"
  shows "append_match (search_mflops line) vs = Inr (vs @ [2469 / 2]) \<and> 2469 / 2 \<in> set ms"
proof
  have s: "search_mflops line = Some ''1234.5''"
    unfolding assms(2) using assms(3,4) by (rule search_tagged_line)
  then show "append_match (search_mflops line) vs = Inr (vs @ [2469 / 2])"
    by (simp add: append_match_def float_1234_5)
  from assms(5) have "parse_lines (split_nl text) [] [] = Inr (ms, gs)"
    by (simp add: parse_output_def)
  from parse_lines_member [OF this assms(1) s float_1234_5] show "2469 / 2 \<in> set ms" .
qed

lemma split_witness: "split_nl ''warmup\<newline>rate MFLOPS: 1234.5 (peak)'' = [''warmup'', ''rate MFLOPS: 1234.5 (peak)'']"
  by simp

lemma parse_witness: "parse_output ''warmup\<newline>rate MFLOPS: 1234.5 (peak)'' = Inr ([2469 / 2], [])"
  by (simp add: parse_eval)

theorem tagged_sample_parsed_witness:
  "''rate MFLOPS: 1234.5 (peak)'' \<in> set (split_nl ''warmup\<newline>rate MFLOPS: 1234.5 (peak)'')
   \<and> ''rate MFLOPS: 1234.5 (peak)'' = ''rate '' @ ''MFLOPS: 1234.5'' @ '' (peak)''
   \<and> search_mflops ''rate '' = None
   \<and> \<not> isnumch (hd '' (peak)'')
   \<and> parse_output ''warmup\<newline>rate MFLOPS: 1234.5 (peak)'' = Inr ([2469 / 2], [])
   \<and> append_match (search_mflops ''rate MFLOPS: 1234.5 (peak)'') [] = Inr [2469 / 2]
   \<and> (2469 / 2 :: rat) \<in> set [2469 / 2]"
proof -
  have a: "''rate MFLOPS: 1234.5 (peak)'' \<in> set (split_nl ''warmup\<newline>rate MFLOPS: 1234.5 (peak)'')"
    by (simp only: split_witness) simp
  have b: "''rate MFLOPS: 1234.5 (peak)'' = ''rate '' @ ''MFLOPS: 1234.5'' @ '' (peak)''"
    by simp
  have c: "search_mflops ''rate '' = None"
    by (simp add: match_mflops_at_def)
  have d: "\<not> isnumch (hd '' (peak)'')"
    by (simp add: isnumch_def isdigit_def)
  then have d': "'' (peak)'' = [] \<or> \<not> isnumch (hd '' (peak)'')" by (rule disjI2)
  note t = tagged_sample_parsed [OF a b c d' parse_witness, of "[]"]
  have e: "append_match (search_mflops ''rate MFLOPS: 1234.5 (peak)'') [] = Inr [2469 / 2]"
    using t [THEN conjunct1] by (simp only: append_Nil)
  have f: "(2469 / 2 :: rat) \<in> set [2469 / 2]"
    using t [THEN conjunct2] .
  show ?thesis by (intro conjI a b c d parse_witness e f)
qed

end
